theory Spec2Isabelle
  imports Main
begin

section \<open>go-matrix-bot: the Bot session engine\<close>

text \<open>
  A shallow embedding of package \<open>matrix\<close> (the file holding \<open>Config\<close>, \<open>Bot\<close>,
  \<open>OnMessage\<close>, the three send operations, \<open>Run\<close> and \<open>Stop\<close>). The protocol client
  (mautrix), the crypto helper and the Go runtime are outside the package: their calls
  are parameters of the model, and what they return is an input.
\<close>

subsection \<open>Identifiers, errors and outcomes\<close>

type_synonym RoomID = string
type_synonym UserID = string

text \<open>
  Go errors. \<open>fmt.Errorf("...: %w", err)\<close> wraps \<open>err\<close> under a message;
  \<open>errors.Is\<close> walks the chain of wrapped errors.
\<close>

datatype error =
    context_Canceled
  | context_DeadlineExceeded
  | ErrorString string
  | Wrapped string error

fun errors_Is :: "error \<Rightarrow> error \<Rightarrow> bool" where
  "errors_Is (Wrapped m e) target = (Wrapped m e = target \<or> errors_Is e target)"
| "errors_Is e target = (e = target)"

text \<open>
  A Go call either returns or panics. A panic carries its value and leaves the state
  as it was when the panic was raised.
\<close>

datatype 'w outcome = Returns 'w | Panics string 'w

subsection \<open>Configuration\<close>

record Config =
  Homeserver :: string
  Username :: string
  Password :: string
  Database :: string
  Debug :: bool

definition Validate :: "Config \<Rightarrow> error option" where
  "Validate c =
     (if Homeserver c = [] then Some (ErrorString ''matrix: homeserver URL is required'')
      else if Username c = [] then Some (ErrorString ''matrix: username is required'')
      else if Password c = [] then Some (ErrorString ''matrix: password is required'')
      else None)"

subsection \<open>Events of the protocol library\<close>

text \<open>
  \<open>event.MessageEventContent\<close> with the fields the package sets or reads;
  \<open>Mentions\<close> is a pointer in Go, \<open>None\<close> is nil. The zero value of a string is
  the empty string.
\<close>

record Mentions =
  UserIDs :: "UserID list"
  Room :: bool

record MessageEventContent =
  MsgType :: string
  Body :: string
  Format :: string
  FormattedBody :: string
  Mentions :: "Mentions option"

definition MsgText :: string where "MsgText = ''m.text''"
definition FormatHTML :: string where "FormatHTML = ''org.matrix.custom.html''"

datatype EventType = EventMessage | StateMember

record MemberEventContent =
  Membership :: string

definition MembershipInvite :: string where "MembershipInvite = ''invite''"
definition MembershipJoin :: string where "MembershipJoin = ''join''"
definition MembershipLeave :: string where "MembershipLeave = ''leave''"
definition MembershipBan :: string where "MembershipBan = ''ban''"

datatype Content =
    ParsedMessage MessageEventContent
  | ParsedMember MemberEventContent
  | ParsedOther

record Event =
  RoomID :: RoomID
  Sender :: UserID
  StateKey :: "string option"
  Content :: Content

text \<open>
  The library's accessors: \<open>AsMessage\<close> and \<open>AsMember\<close> return the parsed content
  when it has the asked type and a zero value otherwise; \<open>GetStateKey\<close> reads a nil
  state key as the empty string.
\<close>

definition zero_MessageEventContent :: MessageEventContent where
  "zero_MessageEventContent =
     \<lparr>MsgType = [], Body = [], Format = [], FormattedBody = [], Mentions = None\<rparr>"

fun AsMessage :: "Content \<Rightarrow> MessageEventContent" where
  "AsMessage (ParsedMessage m) = m"
| "AsMessage _ = zero_MessageEventContent"

fun AsMember :: "Content \<Rightarrow> MemberEventContent" where
  "AsMember (ParsedMember m) = m"
| "AsMember _ = \<lparr>Membership = []\<rparr>"

definition GetStateKey :: "Event \<Rightarrow> string" where
  "GetStateKey evt = (case StateKey evt of None \<Rightarrow> [] | Some k \<Rightarrow> k)"

subsection \<open>Send operations\<close>

text \<open>
  \<open>b.client.SendMessageEvent(ctx, roomID, eventType, content)\<close> acts on the world
  outside the bot (\<open>'w\<close>) and returns a response and an error; the send operations
  drop the response and return the error. The client's method is the parameter
  \<open>send\<close>.
\<close>

type_synonym ('ctx, 'resp, 'w) SendMessageEvent =
  "'ctx \<Rightarrow> RoomID \<Rightarrow> EventType \<Rightarrow> MessageEventContent \<Rightarrow> 'w \<Rightarrow> ('resp \<times> error option) \<times> 'w"

definition SendHTML ::
  "('ctx, 'resp, 'w) SendMessageEvent \<Rightarrow> 'ctx \<Rightarrow> RoomID \<Rightarrow> string \<Rightarrow> string \<Rightarrow> 'w
     \<Rightarrow> error option \<times> 'w" where
  "SendHTML send ctx roomID text html w =
     (let ((resp, err), w') =
        send ctx roomID EventMessage
          \<lparr>MsgType = MsgText, Body = text, Format = FormatHTML, FormattedBody = html,
           Mentions = None\<rparr> w
      in (err, w'))"

definition SendReply ::
  "('ctx, 'resp, 'w) SendMessageEvent \<Rightarrow> 'ctx \<Rightarrow> RoomID \<Rightarrow> string \<Rightarrow> string \<Rightarrow> UserID list
     \<Rightarrow> 'w \<Rightarrow> error option \<times> 'w" where
  "SendReply send ctx roomID text html mentionUserIDs w =
     (let content = \<lparr>MsgType = MsgText, Body = text, Format = FormatHTML,
                     FormattedBody = html, Mentions = None\<rparr>;
          content = (if length mentionUserIDs > 0
                     then content\<lparr>Mentions := Some \<lparr>UserIDs = mentionUserIDs, Room = True\<rparr>\<rparr>
                     else content);
          ((resp, err), w') = send ctx roomID EventMessage content w
      in (err, w'))"

text \<open>
  A client that records what it is asked to send: its world is the list of the events
  it received, oldest first, and \<open>fails\<close> decides the error it answers with.
\<close>

type_synonym sent = "RoomID \<times> EventType \<times> MessageEventContent"

definition recording_client ::
  "(sent \<Rightarrow> error option) \<Rightarrow> ('ctx, unit, sent list) SendMessageEvent" where
  "recording_client fails ctx roomID ty content outbox =
     (((), fails (roomID, ty, content)), outbox @ [(roomID, ty, content)])"

subsection \<open>The bot and its handler registry\<close>

text \<open>
  A \<open>MessageHandler\<close> is a Go function value with no result: it acts on the world and
  returns, or it panics.
\<close>

type_synonym ('ctx, 'w) MessageHandler =
  "'ctx \<Rightarrow> RoomID \<Rightarrow> UserID \<Rightarrow> MessageEventContent \<Rightarrow> 'w \<Rightarrow> 'w outcome"

datatype Level = DebugLevel | InfoLevel

record ReqLogin =
  login_Type :: string
  login_User :: string
  login_Password :: string
  StoreCredentials :: bool

record CryptoHelper =
  pickleKey :: string
  dbPath :: string
  LoginAs :: "ReqLogin option"

text \<open>
  The protocol client as far as the package touches it: the user id the library fills
  in at login, the logger, the event types with a listener on the default syncer (in
  the order of the \<open>OnEventType\<close> calls) and the crypto helper.
\<close>

record Client =
  HomeserverURL :: string
  UserID :: UserID
  Log :: "Level option"
  Listeners :: "EventType list"
  Crypto :: "CryptoHelper option"

datatype CancelFunc = CancelFunc

text \<open>\<open>syncWait\<close> is the counter of the \<open>sync.WaitGroup\<close>; a nil pointer or func is \<open>None\<close>.\<close>

record ('ctx, 'w) Bot =
  config :: Config
  client :: "Client option"
  crypto :: "CryptoHelper option"
  logger :: "Level option"
  handlers :: "('ctx, 'w) MessageHandler list"
  cancelSync :: "CancelFunc option"
  syncWait :: nat

definition NewBot :: "Config \<Rightarrow> error + ('ctx, 'w) Bot" where
  "NewBot cfg =
     (case Validate cfg of
        Some err \<Rightarrow> Inl err
      | None \<Rightarrow>
          (let cfg = (if Database cfg = [] then cfg\<lparr>Database := ''matrix-bot.db''\<rparr> else cfg)
           in Inr \<lparr>config = cfg, client = None, crypto = None, logger = None, handlers = [],
                   cancelSync = None, syncWait = 0\<rparr>))"

definition OnMessage :: "('ctx, 'w) Bot \<Rightarrow> ('ctx, 'w) MessageHandler \<Rightarrow> ('ctx, 'w) Bot" where
  "OnMessage b handler = b\<lparr>handlers := handlers b @ [handler]\<rparr>"

subsection \<open>Event routes\<close>

text \<open>
  The message route: \<open>for _, handler := range b.handlers { handler(ctx, evt.RoomID,
  evt.Sender, msg) }\<close>. The loop has no \<open>recover\<close>, so a panic of a handler leaves
  the loop and the closure. Beside the outcome, the model returns the invocations the
  loop made, in the order it made them: the handler called and its arguments.
\<close>

type_synonym ('ctx, 'w) invocation =
  "('ctx, 'w) MessageHandler \<times> 'ctx \<times> RoomID \<times> UserID \<times> MessageEventContent"

fun range_handlers ::
  "('ctx, 'w) MessageHandler list \<Rightarrow> 'ctx \<Rightarrow> RoomID \<Rightarrow> UserID \<Rightarrow> MessageEventContent \<Rightarrow> 'w
     \<Rightarrow> ('ctx, 'w) invocation list \<times> 'w outcome" where
  "range_handlers [] ctx roomID sender msg w = ([], Returns w)"
| "range_handlers (handler # rest) ctx roomID sender msg w =
     (case handler ctx roomID sender msg w of
        Panics p w' \<Rightarrow> ([(handler, ctx, roomID, sender, msg)], Panics p w')
      | Returns w' \<Rightarrow>
          (let (calls, out) = range_handlers rest ctx roomID sender msg w'
           in ((handler, ctx, roomID, sender, msg) # calls, out)))"

definition on_EventMessage ::
  "('ctx, 'w) Bot \<Rightarrow> 'ctx \<Rightarrow> Event \<Rightarrow> 'w \<Rightarrow> ('ctx, 'w) invocation list \<times> 'w outcome" where
  "on_EventMessage b ctx evt w =
     (let msg = AsMessage (Content evt)
      in range_handlers (handlers b) ctx (RoomID evt) (Sender evt) msg w)"

text \<open>
  Log lines of the package: the level, the error attached with \<open>Err\<close>, the string
  fields in the order they are added, the message.
\<close>

datatype log_line =
    LogError error "(string \<times> string) list" string
  | LogInfo "(string \<times> string) list" string

text \<open>
  The membership route. \<open>join\<close> is \<open>b.client.JoinRoomByID\<close>: it acts on the world and
  returns an error or nil. The closure has no result; it only logs.
\<close>

definition on_StateMember ::
  "('ctx \<Rightarrow> RoomID \<Rightarrow> 'w \<Rightarrow> error option \<times> 'w) \<Rightarrow> Client \<Rightarrow> 'ctx \<Rightarrow> Event \<Rightarrow> 'w
     \<Rightarrow> log_line list \<times> 'w" where
  "on_StateMember join cl ctx evt w =
     (if GetStateKey evt = UserID cl \<and> Membership (AsMember (Content evt)) = MembershipInvite
      then (let (joinErr, w') = join ctx (RoomID evt) w
            in (case joinErr of
                  Some e \<Rightarrow>
                    ([LogError e [(''room_id'', RoomID evt), (''inviter'', Sender evt)]
                        ''Failed to join room after invite''], w')
                | None \<Rightarrow>
                    ([LogInfo [(''room_id'', RoomID evt), (''inviter'', Sender evt)]
                        ''Joined room after invite''], w')))
      else ([], w))"

text \<open>A client that records the rooms it is asked to join; \<open>fails\<close> decides its answer.\<close>

definition recording_join ::
  "(RoomID \<Rightarrow> error option) \<Rightarrow> 'ctx \<Rightarrow> RoomID \<Rightarrow> RoomID list \<Rightarrow> error option \<times> RoomID list" where
  "recording_join fails ctx roomID joined = (fails roomID, joined @ [roomID])"

subsection \<open>Run: bootstrap\<close>

text \<open>
  What the libraries answer during \<open>Run\<close>: \<open>mautrix.NewClient\<close>,
  \<open>cryptohelper.NewCryptoHelper\<close> and the helper's \<open>Init\<close>, which logs in with
  \<open>LoginAs\<close> on the client it is bound to and gives that client its user id.
\<close>

record mautrix_env =
  NewClient :: "string \<Rightarrow> error + Client"
  NewCryptoHelper :: "Client \<Rightarrow> string \<Rightarrow> string \<Rightarrow> error + CryptoHelper"
  Init :: "CryptoHelper \<Rightarrow> Client \<Rightarrow> error option \<times> UserID"

text \<open>
  \<open>Run\<close> up to the line that logs "Matrix bot is running". \<open>b.client\<close> is a pointer:
  the assignments to the client's logger, listeners and crypto helper are updates of
  the client the bot holds. The result is the error \<open>Run\<close> returns at once (if any),
  the lines logged by the package and the bot.
\<close>

definition bootstrap ::
  "mautrix_env \<Rightarrow> ('ctx, 'w) Bot \<Rightarrow> error option \<times> log_line list \<times> ('ctx, 'w) Bot" where
  "bootstrap env b =
     (case NewClient env (Homeserver (config b)) of
        Inl err \<Rightarrow> (Some (Wrapped ''matrix: failed to create client'' err), [], b)
      | Inr cl \<Rightarrow>
          (let lvl = (if \<not> Debug (config b) then InfoLevel else DebugLevel);
               cl = cl\<lparr>Log := Some lvl\<rparr>;
               cl = cl\<lparr>Listeners := Listeners cl @ [EventMessage]\<rparr>;
               cl = cl\<lparr>Listeners := Listeners cl @ [StateMember]\<rparr>;
               b = b\<lparr>client := Some cl, logger := Some lvl\<rparr>
           in (case NewCryptoHelper env cl ''meow'' (Database (config b)) of
                 Inl err \<Rightarrow> (Some (Wrapped ''matrix: failed to create crypto helper'' err), [], b)
               | Inr cryptoHelper \<Rightarrow>
                   (let cryptoHelper = cryptoHelper\<lparr>LoginAs := Some
                          \<lparr>login_Type = ''m.login.password'', login_User = Username (config b),
                           login_Password = Password (config b), StoreCredentials = True\<rparr>\<rparr>;
                        (err, userID) = Init env cryptoHelper cl;
                        cl = cl\<lparr>UserID := userID\<rparr>;
                        b = b\<lparr>client := Some cl\<rparr>
                    in (case err of
                          Some e \<Rightarrow> (Some (Wrapped ''matrix: failed to init crypto'' e), [], b)
                        | None \<Rightarrow>
                            (None,
                             [LogInfo [(''user'', Username (config b))] ''Matrix bot is running''],
                             b\<lparr>crypto := Some cryptoHelper,
                               client := Some (cl\<lparr>Crypto := Some cryptoHelper\<rparr>)\<rparr>))))))"

subsection \<open>Run: the sync goroutine and the wait\<close>

text \<open>\<open>b.cancelSync = cancelSync; b.syncWait.Add(1)\<close>.\<close>

definition start_sync :: "('ctx, 'w) Bot \<Rightarrow> ('ctx, 'w) Bot" where
  "start_sync b = b\<lparr>cancelSync := Some CancelFunc, syncWait := syncWait b + 1\<rparr>"

text \<open>
  The goroutine: one call of \<open>b.client.SyncWithContext(syncCtx)\<close> (the parameter
  \<open>sync\<close>, acting on the world), one log line unless the error is nil or a
  cancellation, then the deferred \<open>b.syncWait.Done()\<close>, which panics on a counter that
  is already zero.
\<close>

definition sync_goroutine ::
  "('w \<Rightarrow> error option \<times> 'w) \<Rightarrow> ('ctx, 'w) Bot \<Rightarrow> 'w
     \<Rightarrow> log_line list \<times> 'w \<times> ('ctx, 'w) Bot outcome" where
  "sync_goroutine sync b w =
     (let (syncErr, w') = sync w;
          lines = (case syncErr of
                     None \<Rightarrow> []
                   | Some e \<Rightarrow> (if \<not> errors_Is e context_Canceled
                               then [LogError e [] ''Sync error''] else []))
      in (lines, w',
          if syncWait b = 0 then Panics ''sync: negative WaitGroup counter'' b
          else Returns (b\<lparr>syncWait := syncWait b - 1\<rparr>)))"

text \<open>
  \<open>syncCtx, cancelSync := context.WithCancel(ctx)\<close>: the derived context is done once
  the caller's context is done or \<open>cancelSync\<close> has been called.
\<close>

record ctx_state =
  parent_done :: bool
  cancel_called :: bool

definition syncCtx_Done :: "ctx_state \<Rightarrow> bool" where
  "syncCtx_Done s = (parent_done s \<or> cancel_called s)"

text \<open>
  What can happen while \<open>Run\<close> is blocked in \<open>\<open><-syncCtx.Done()\<close>\<close>: the caller's context
  becomes done, someone calls \<open>b.cancelSync\<close> (\<open>Stop\<close> does), or the goroutine's
  \<open>SyncWithContext\<close> returns.
\<close>

datatype signal = ParentDone | CancelSyncCalled | SyncReturned "error option"

fun deliver :: "signal \<Rightarrow> ctx_state \<Rightarrow> ctx_state" where
  "deliver ParentDone s = s\<lparr>parent_done := True\<rparr>"
| "deliver CancelSyncCalled s = s\<lparr>cancel_called := True\<rparr>"
| "deliver (SyncReturned r) s = s"

text \<open>\<open>await_Done s sigs\<close>: the receive from \<open>syncCtx.Done()\<close> completes in state \<open>s\<close> or
  after some of the signals \<open>sigs\<close>, taken in order.\<close>

fun await_Done :: "ctx_state \<Rightarrow> signal list \<Rightarrow> bool" where
  "await_Done s [] = syncCtx_Done s"
| "await_Done s (sg # sigs) = (if syncCtx_Done s then True else await_Done (deliver sg s) sigs)"

text \<open>
  \<open>Run\<close>. \<open>ctx_done\<close> says whether the caller's context is done when the wait begins.
  The first component is \<open>None\<close> while \<open>Run\<close> is still blocked after all the signals,
  \<open>Some None\<close> when it has returned nil and \<open>Some (Some err)\<close> when it has returned
  \<open>err\<close>.
\<close>

definition Run ::
  "mautrix_env \<Rightarrow> ('ctx, 'w) Bot \<Rightarrow> bool \<Rightarrow> signal list
     \<Rightarrow> error option option \<times> log_line list \<times> ('ctx, 'w) Bot" where
  "Run env b ctx_done sigs =
     (case bootstrap env b of
        (Some err, lines, b') \<Rightarrow> (Some (Some err), lines, b')
      | (None, lines, b') \<Rightarrow>
          (let b'' = start_sync b'
           in (if await_Done \<lparr>parent_done = ctx_done, cancel_called = False\<rparr> sigs
               then Some None else None,
               lines, b'')))"

subsection \<open>Stop\<close>

text \<open>
  \<open>Stop\<close> calls \<open>b.cancelSync\<close> when it is not nil, waits on the WaitGroup, and closes
  the crypto helper when it is not nil. \<open>Wait\<close> returns at once on a zero counter;
  otherwise it returns when the goroutines holding the counter have returned, which is
  up to the library (\<open>sync_returns\<close>), and never if they do not. \<open>close\<close> is the
  helper's \<open>Close\<close>, acting on the key store \<open>'k\<close>. The result is \<open>None\<close> when \<open>Stop\<close>
  never returns; otherwise the error returned, the calls made, and the bot, the
  context and the key store afterwards.
\<close>

datatype stop_call = Call_cancelSync | Blocked_in_Wait | Call_crypto_Close

definition Stop ::
  "(CryptoHelper \<Rightarrow> 'k \<Rightarrow> error option \<times> 'k) \<Rightarrow> bool \<Rightarrow> ('ctx, 'w) Bot \<Rightarrow> ctx_state \<Rightarrow> 'k
     \<Rightarrow> (error option \<times> stop_call list \<times> ('ctx, 'w) Bot \<times> ctx_state \<times> 'k) option" where
  "Stop close sync_returns b s k =
     (let (calls, s) = (case cancelSync b of
                          Some f \<Rightarrow> ([Call_cancelSync], s\<lparr>cancel_called := True\<rparr>)
                        | None \<Rightarrow> ([], s))
      in if syncWait b > 0 \<and> \<not> sync_returns then None
         else (let (calls, b) = (if syncWait b > 0
                                 then (calls @ [Blocked_in_Wait], b\<lparr>syncWait := 0\<rparr>)
                                 else (calls, b))
               in (case crypto b of
                     Some h \<Rightarrow> (let (err, k') = close h k
                               in Some (err, calls @ [Call_crypto_Close], b, s, k'))
                   | None \<Rightarrow> Some (None, calls, b, s, k))))"


subsection \<open>Concrete inputs\<close>

definition example_config :: Config where
  "example_config = \<lparr>Homeserver = ''https://example'', Username = ''bot'', Password = ''pw'',
     Database = [], Debug = False\<rparr>"

definition example_event :: Event where
  "example_event = \<lparr>RoomID = ''!R1:example'', Sender = ''@alice:example'', StateKey = None,
     Content = ParsedMessage \<lparr>MsgType = ''m.text'', Body = ''hi'', Format = [],
       FormattedBody = [], Mentions = None\<rparr>\<rparr>"

text \<open>Handlers on a world that is a list of strings: two that note what they saw and
  one that panics.\<close>

definition note_body :: "(unit, string list) MessageHandler" where
  "note_body ctx roomID sender msg w = Returns (w @ [Body msg])"

definition note_sender :: "(unit, string list) MessageHandler" where
  "note_sender ctx roomID sender msg w = Returns (w @ [sender])"

definition failing_handler :: "(unit, string list) MessageHandler" where
  "failing_handler ctx roomID sender msg w = Panics ''handler failed'' w"

definition example_client :: Client where
  "example_client = \<lparr>HomeserverURL = ''https://example'', UserID = ''@bot:example'',
     Log = None, Listeners = [], Crypto = None\<rparr>"

definition invite_event :: Event where
  "invite_event = \<lparr>RoomID = ''!R1:example'', Sender = ''@alice:example'',
     StateKey = Some ''@bot:example'', Content = ParsedMember \<lparr>Membership = ''invite''\<rparr>\<rparr>"

definition join_event :: Event where
  "join_event = \<lparr>RoomID = ''!R1:example'', Sender = ''@bot:example'',
     StateKey = Some ''@bot:example'', Content = ParsedMember \<lparr>Membership = ''join''\<rparr>\<rparr>"

definition always_fails :: "'a \<Rightarrow> error option" where
  "always_fails x = Some (ErrorString ''M_FORBIDDEN'')"

definition never_fails :: "'a \<Rightarrow> error option" where
  "never_fails x = None"

text \<open>A \<open>SyncWithContext\<close> that returns \<open>r\<close> and counts its calls.\<close>

definition counting_sync :: "error option \<Rightarrow> nat \<Rightarrow> error option \<times> nat" where
  "counting_sync r n = (r, Suc n)"

text \<open>Library answers: a run in which every step succeeds, and one in which the crypto
  helper cannot be created.\<close>

definition new_client :: "string \<Rightarrow> error + Client" where
  "new_client url = Inr \<lparr>HomeserverURL = url, UserID = [], Log = None, Listeners = [], Crypto = None\<rparr>"

definition new_helper :: "Client \<Rightarrow> string \<Rightarrow> string \<Rightarrow> error + CryptoHelper" where
  "new_helper cl key path = Inr \<lparr>pickleKey = key, dbPath = path, LoginAs = None\<rparr>"


definition init_logs_in :: "CryptoHelper \<Rightarrow> Client \<Rightarrow> error option \<times> UserID" where
  "init_logs_in h cl = (None, ''@bot:example'')"

definition working_env :: mautrix_env where
  "working_env = \<lparr>NewClient = new_client, NewCryptoHelper = new_helper, Init = init_logs_in\<rparr>"


definition example_bot :: "(unit, string list) Bot" where
  "example_bot = projr (NewBot example_config)"




section \<open>Properties\<close>

subsection \<open>Send operations\<close>

text \<open>
  C5, as the code has it. \<open>SendHTML\<close> hands the client exactly one message event. Its
  plain-text body is the caller's text, unchanged, and its formatted body is the
  caller's HTML under the HTML format tag, whatever the two strings are (an empty HTML
  included). The plain-text body is therefore non-empty exactly when the caller's text
  is: the operation neither checks nor fills it.
\<close>

theorem SendHTML_carries_both_bodies:
  "\<exists>c. SendHTML (recording_client fails) ctx roomID text html outbox =
          (fails (roomID, EventMessage, c), outbox @ [(roomID, EventMessage, c)])
       \<and> MsgType c = MsgText \<and> Body c = text \<and> Format c = FormatHTML \<and> FormattedBody c = html
       \<and> Mentions c = None \<and> (Body c \<noteq> [] \<longleftrightarrow> text \<noteq> [])"
  by (simp add: SendHTML_def recording_client_def)

theorem SendHTML_carries_both_bodies_witness:
  "map (\<lambda>(r, t, c). (Body c, FormattedBody c))
     (snd (SendHTML (recording_client never_fails) () ''!R1:example'' ''hi'' [] [])) = [(''hi'', [])]"
proof -
  from SendHTML_carries_both_bodies [of never_fails "()" "''!R1:example''" "''hi''" "[]" "[]"]
  obtain c where
    "SendHTML (recording_client never_fails) () ''!R1:example'' ''hi'' [] [] =
       (never_fails (''!R1:example'', EventMessage, c), [] @ [(''!R1:example'', EventMessage, c)])"
    and "Body c = ''hi''" and "FormattedBody c = []"
    by blast
  then show ?thesis by simp
qed

text \<open>
  C5, as the claim states it, fails: with an empty text the event that \<open>SendHTML\<close>
  sends has an empty plain-text body beside a non-empty rich body.
\<close>

theorem SendHTML_empty_body_counterexample:
  "snd (SendHTML (recording_client never_fails) () ''!R1:example'' [] ''<b>hi</b>'' []) =
     [(''!R1:example'', EventMessage,
       \<lparr>MsgType = ''m.text'', Body = [], Format = ''org.matrix.custom.html'',
        FormattedBody = ''<b>hi</b>'', Mentions = None\<rparr>)]"
  by (simp add: SendHTML_def recording_client_def MsgText_def FormatHTML_def)

text \<open>
  C6. \<open>SendReply\<close> with a non-empty list of mentioned users hands the client one event
  whose mentions hold that list, in the order given, together with the room-wide flag
  set to true.
\<close>

theorem SendReply_sets_mentions:
  "mentionUserIDs \<noteq> [] \<Longrightarrow>
     \<exists>c. SendReply (recording_client fails) ctx roomID text html mentionUserIDs outbox =
            (fails (roomID, EventMessage, c), outbox @ [(roomID, EventMessage, c)])
         \<and> Mentions c = Some \<lparr>UserIDs = mentionUserIDs, Room = True\<rparr>
         \<and> Body c = text \<and> FormattedBody c = html"
  by (simp add: SendReply_def recording_client_def Let_def)

theorem SendReply_sets_mentions_witness:
  "map (\<lambda>(r, t, c). Mentions c)
     (snd (SendReply (recording_client never_fails) () ''!R1:example'' ''hi'' ''<p>hi</p>''
             [''@alice:example'', ''@bob:example''] [])) =
     [Some \<lparr>UserIDs = [''@alice:example'', ''@bob:example''], Room = True\<rparr>]"
proof -
  have ne: "[''@alice:example'', ''@bob:example''] \<noteq> []" by simp
  from SendReply_sets_mentions [OF ne, of never_fails "()" "''!R1:example''" "''hi''"
      "''<p>hi</p>''" "[]"]
  obtain c where
    "SendReply (recording_client never_fails) () ''!R1:example'' ''hi'' ''<p>hi</p>''
        [''@alice:example'', ''@bob:example''] [] =
       (never_fails (''!R1:example'', EventMessage, c), [] @ [(''!R1:example'', EventMessage, c)])"
    and "Mentions c = Some \<lparr>UserIDs = [''@alice:example'', ''@bob:example''], Room = True\<rparr>"
    by blast
  then show ?thesis by simp
qed

text \<open>
  C10. With an empty list of mentioned users \<open>SendReply\<close> is \<open>SendHTML\<close>: for every
  client, context, room, text and HTML the two make the same call and return the same
  error, and the event they send has the same message type, body, format and formatted
  body and no mentions.
\<close>

theorem SendReply_without_mentions_is_SendHTML:
  "SendReply send ctx roomID text html [] = SendHTML send ctx roomID text html
   \<and> snd (SendReply (recording_client fails) ctx roomID text html [] outbox) =
       outbox @ [(roomID, EventMessage,
         \<lparr>MsgType = MsgText, Body = text, Format = FormatHTML, FormattedBody = html,
          Mentions = None\<rparr>)]"
proof
  show "SendReply send ctx roomID text html [] = SendHTML send ctx roomID text html"
    by (rule ext) (simp add: SendReply_def SendHTML_def Let_def)
  show "snd (SendReply (recording_client fails) ctx roomID text html [] outbox) =
       outbox @ [(roomID, EventMessage,
         \<lparr>MsgType = MsgText, Body = text, Format = FormatHTML, FormattedBody = html,
          Mentions = None\<rparr>)]"
    by (simp add: SendReply_def recording_client_def Let_def)
qed

subsection \<open>The handler registry and the message route\<close>

lemma handlers_foldl_OnMessage: "handlers (foldl OnMessage b hs) = handlers b @ hs"
  by (induction hs arbitrary: b) (simp_all add: OnMessage_def)

lemma handlers_NewBot: "NewBot cfg = Inr b \<Longrightarrow> handlers b = []"
  by (auto simp: NewBot_def Let_def split: option.splits)

lemma range_handlers_all_return:
  "\<forall>h \<in> set hs. \<forall>w. \<exists>w'. h ctx roomID sender msg w = Returns w' \<Longrightarrow>
     \<exists>w'. range_handlers hs ctx roomID sender msg w =
            (map (\<lambda>h. (h, ctx, roomID, sender, msg)) hs, Returns w')"
proof (induction hs arbitrary: w)
  case Nil
  then show ?case by simp
next
  case (Cons h hs)
  from Cons.prems obtain w1 where h: "h ctx roomID sender msg w = Returns w1"
    by (meson list.set_intros(1))
  from Cons.prems have "\<forall>h \<in> set hs. \<forall>w. \<exists>w'. h ctx roomID sender msg w = Returns w'"
    by simp
  from Cons.IH [OF this, of w1] obtain w2 where
    "range_handlers hs ctx roomID sender msg w1 =
       (map (\<lambda>h. (h, ctx, roomID, sender, msg)) hs, Returns w2)" ..
  with h show ?case by simp
qed

lemma range_handlers_panic:
  assumes "\<forall>h \<in> set pre. \<forall>w. \<exists>w'. h ctx roomID sender msg w = Returns w'"
    and "\<forall>w. \<exists>w'. bad ctx roomID sender msg w = Panics p w'"
  shows "\<exists>w'. range_handlers (pre @ bad # post) ctx roomID sender msg w =
            (map (\<lambda>h. (h, ctx, roomID, sender, msg)) (pre @ [bad]), Panics p w')"
  using assms(1)
proof (induction pre arbitrary: w)
  case Nil
  from assms(2) obtain w' where "bad ctx roomID sender msg w = Panics p w'" by blast
  then show ?case by simp
next
  case (Cons h pre)
  from Cons.prems obtain w1 where h: "h ctx roomID sender msg w = Returns w1"
    by (meson list.set_intros(1))
  from Cons.prems have "\<forall>h \<in> set pre. \<forall>w. \<exists>w'. h ctx roomID sender msg w = Returns w'"
    by simp
  from Cons.IH [OF this, of w1] obtain w2 where
    "range_handlers (pre @ bad # post) ctx roomID sender msg w1 =
       (map (\<lambda>h. (h, ctx, roomID, sender, msg)) (pre @ [bad]), Panics p w2)" ..
  with h show ?case by simp
qed

text \<open>
  C1, as the code has it. Register the handlers \<open>hs\<close> on a new bot with \<open>OnMessage\<close>,
  one after the other. For a message event, when each of them returns on the event's
  arguments, the message route makes exactly \<open>length hs\<close> invocations: the handlers of
  \<open>hs\<close> in the order of registration, each with the context of the route and the room
  id, the sender and the message content of the event; and the route returns.
\<close>

theorem on_EventMessage_invokes_every_handler:
  assumes "NewBot cfg = Inr b"
    and "\<forall>h \<in> set hs. \<forall>w. \<exists>w'.
           h ctx (RoomID evt) (Sender evt) (AsMessage (Content evt)) w = Returns w'"
  shows "\<exists>w'. on_EventMessage (foldl OnMessage b hs) ctx evt w =
            (map (\<lambda>h. (h, ctx, RoomID evt, Sender evt, AsMessage (Content evt))) hs, Returns w')
         \<and> length (fst (on_EventMessage (foldl OnMessage b hs) ctx evt w)) = length hs"
proof -
  have "handlers (foldl OnMessage b hs) = hs"
    using assms(1) by (simp add: handlers_foldl_OnMessage handlers_NewBot)
  moreover from range_handlers_all_return [OF assms(2), of w] obtain w' where
    "range_handlers hs ctx (RoomID evt) (Sender evt) (AsMessage (Content evt)) w =
       (map (\<lambda>h. (h, ctx, RoomID evt, Sender evt, AsMessage (Content evt))) hs, Returns w')" ..
  ultimately show ?thesis by (simp add: on_EventMessage_def)
qed

theorem on_EventMessage_invokes_every_handler_witness:
  "fst (on_EventMessage (foldl OnMessage (projr (NewBot example_config)) [note_body, note_sender])
          () example_event []) =
     [(note_body, (), ''!R1:example'', ''@alice:example'', AsMessage (Content example_event)),
      (note_sender, (), ''!R1:example'', ''@alice:example'', AsMessage (Content example_event))]
   \<and> (\<exists>w'. snd (on_EventMessage (foldl OnMessage (projr (NewBot example_config))
          [note_body, note_sender]) () example_event []) = Returns w')"
proof -
  have nb: "NewBot example_config = Inr (projr (NewBot example_config) :: (unit, string list) Bot)"
    by (simp add: NewBot_def Validate_def example_config_def)
  have ret: "\<forall>h \<in> set [note_body, note_sender]. \<forall>w. \<exists>w'.
      h () (RoomID example_event) (Sender example_event) (AsMessage (Content example_event)) w
        = Returns w'"
    by (simp add: note_body_def note_sender_def)
  from on_EventMessage_invokes_every_handler [OF nb ret, of "[]"] obtain w' where
    "on_EventMessage (foldl OnMessage (projr (NewBot example_config)) [note_body, note_sender])
        () example_event [] =
       (map (\<lambda>h. (h, (), RoomID example_event, Sender example_event,
                   AsMessage (Content example_event))) [note_body, note_sender], Returns w')"
    by blast
  then show ?thesis by (simp add: example_event_def)
qed

text \<open>
  C1, as the claim states it, fails for handlers that do not all return: with three
  handlers registered, the second of which panics, the route makes two invocations, not
  three, and the third handler is not among them.
\<close>

theorem on_EventMessage_fewer_invocations_counterexample:
  "length [note_body, failing_handler, note_sender] = 3
   \<and> map fst (fst (on_EventMessage
          (foldl OnMessage (projr (NewBot example_config)) [note_body, failing_handler, note_sender])
          () example_event [])) = [note_body, failing_handler]
   \<and> length (fst (on_EventMessage
          (foldl OnMessage (projr (NewBot example_config)) [note_body, failing_handler, note_sender])
          () example_event [])) = 2"
  by (simp add: on_EventMessage_def NewBot_def Validate_def example_config_def OnMessage_def
      note_body_def failing_handler_def example_event_def Let_def)

text \<open>
  C2, as the code has it. The loop over the handlers has no \<open>recover\<close>. When a handler
  panics, the handlers registered before it have been invoked, in order, with the
  event's arguments, the handlers registered after it are not invoked for that event,
  and the panic leaves the route with the value the handler raised.
\<close>

theorem on_EventMessage_stops_at_panic:
  assumes "handlers b = pre @ bad # post"
    and "\<forall>h \<in> set pre. \<forall>w. \<exists>w'.
           h ctx (RoomID evt) (Sender evt) (AsMessage (Content evt)) w = Returns w'"
    and "\<forall>w. \<exists>w'. bad ctx (RoomID evt) (Sender evt) (AsMessage (Content evt)) w = Panics p w'"
  shows "\<exists>w'. on_EventMessage b ctx evt w =
            (map (\<lambda>h. (h, ctx, RoomID evt, Sender evt, AsMessage (Content evt))) (pre @ [bad]),
             Panics p w')"
  using range_handlers_panic [of pre ctx "RoomID evt" "Sender evt" "AsMessage (Content evt)" bad p post w]
    assms by (simp add: on_EventMessage_def)

theorem on_EventMessage_stops_at_panic_witness:
  "fst (on_EventMessage
          (foldl OnMessage (projr (NewBot example_config)) [note_body, failing_handler, note_sender])
          () example_event []) =
     [(note_body, (), ''!R1:example'', ''@alice:example'', AsMessage (Content example_event)),
      (failing_handler, (), ''!R1:example'', ''@alice:example'', AsMessage (Content example_event))]
   \<and> (\<exists>w'. snd (on_EventMessage
          (foldl OnMessage (projr (NewBot example_config)) [note_body, failing_handler, note_sender])
          () example_event []) = Panics ''handler failed'' w')"
proof -
  let ?b = "foldl OnMessage (projr (NewBot example_config)) [note_body, failing_handler, note_sender]"
  have hs: "handlers ?b = [note_body] @ failing_handler # [note_sender]"
    by (simp add: NewBot_def Validate_def example_config_def OnMessage_def)
  have ret: "\<forall>h \<in> set [note_body]. \<forall>w. \<exists>w'.
      h () (RoomID example_event) (Sender example_event) (AsMessage (Content example_event)) w
        = Returns w'"
    by (simp add: note_body_def)
  have bad: "\<forall>w. \<exists>w'.
      failing_handler () (RoomID example_event) (Sender example_event)
        (AsMessage (Content example_event)) w = Panics ''handler failed'' w'"
    by (simp add: failing_handler_def)
  from on_EventMessage_stops_at_panic [OF hs ret bad, of "[]"] obtain w' where
    "on_EventMessage ?b () example_event [] =
       (map (\<lambda>h. (h, (), RoomID example_event, Sender example_event,
                   AsMessage (Content example_event))) ([note_body] @ [failing_handler]),
        Panics ''handler failed'' w')"
    by blast
  then show ?thesis by (simp add: example_event_def)
qed

text \<open>
  C2, as the claim states it, fails: with a panicking handler registered before a
  second handler, the route invokes the first only, and its outcome is the panic.
\<close>

theorem on_EventMessage_panic_counterexample:
  "on_EventMessage (foldl OnMessage (projr (NewBot example_config)) [failing_handler, note_body])
      () example_event [] =
     ([(failing_handler, (), ''!R1:example'', ''@alice:example'', AsMessage (Content example_event))],
      Panics ''handler failed'' [])"
  by (simp add: on_EventMessage_def NewBot_def Validate_def example_config_def OnMessage_def
      failing_handler_def example_event_def)

subsection \<open>The membership route\<close>

text \<open>
  C3. On a membership event the route asks the client to join the event's room once
  when the event's state key is the bot's own user id and the membership is
  \<open>invite\<close>, and not at all otherwise (then it does nothing). After the one call it
  writes one log line and stops: an error line with the room id and the inviter when
  the join failed, an info line when it succeeded. There is no second call, and the
  route has no result through which an error could leave it.
\<close>

theorem on_StateMember_joins_on_own_invite:
  "snd (on_StateMember (recording_join fails) cl ctx evt joined) =
     joined @ (if GetStateKey evt = UserID cl
                  \<and> Membership (AsMember (Content evt)) = MembershipInvite
               then [RoomID evt] else [])
   \<and> (GetStateKey evt \<noteq> UserID cl \<or> Membership (AsMember (Content evt)) \<noteq> MembershipInvite
        \<longrightarrow> on_StateMember (recording_join fails) cl ctx evt joined = ([], joined))
   \<and> (GetStateKey evt = UserID cl \<and> Membership (AsMember (Content evt)) = MembershipInvite
        \<longrightarrow> fst (on_StateMember (recording_join fails) cl ctx evt joined) =
            (case fails (RoomID evt) of
               Some e \<Rightarrow> [LogError e [(''room_id'', RoomID evt), (''inviter'', Sender evt)]
                           ''Failed to join room after invite'']
             | None \<Rightarrow> [LogInfo [(''room_id'', RoomID evt), (''inviter'', Sender evt)]
                         ''Joined room after invite'']))"
  by (auto simp: on_StateMember_def recording_join_def split: option.splits)

theorem on_StateMember_joins_on_own_invite_witness:
  "on_StateMember (recording_join always_fails) example_client () invite_event [] =
     ([LogError (ErrorString ''M_FORBIDDEN'')
         [(''room_id'', ''!R1:example''), (''inviter'', ''@alice:example'')]
         ''Failed to join room after invite''], [''!R1:example''])
   \<and> on_StateMember (recording_join always_fails) example_client () join_event [''!R1:example'']
       = ([], [''!R1:example''])"
proof -
  have inv: "GetStateKey invite_event = UserID example_client
      \<and> Membership (AsMember (Content invite_event)) = MembershipInvite"
    by (simp add: GetStateKey_def invite_event_def example_client_def MembershipInvite_def)
  have other: "GetStateKey join_event \<noteq> UserID example_client
      \<or> Membership (AsMember (Content join_event)) \<noteq> MembershipInvite"
    by (simp add: join_event_def MembershipInvite_def)
  note t1 = on_StateMember_joins_on_own_invite
      [of always_fails example_client "()" invite_event "[]"]
  note t2 = on_StateMember_joins_on_own_invite
      [of always_fails example_client "()" join_event "[''!R1:example'']"]
  have "fst (on_StateMember (recording_join always_fails) example_client () invite_event []) =
      (case always_fails (RoomID invite_event) of
         Some e \<Rightarrow> [LogError e [(''room_id'', RoomID invite_event), (''inviter'', Sender invite_event)]
                     ''Failed to join room after invite'']
       | None \<Rightarrow> [LogInfo [(''room_id'', RoomID invite_event), (''inviter'', Sender invite_event)]
                   ''Joined room after invite''])"
    using t1 inv by blast
  then have "fst (on_StateMember (recording_join always_fails) example_client () invite_event []) =
      [LogError (ErrorString ''M_FORBIDDEN'')
         [(''room_id'', ''!R1:example''), (''inviter'', ''@alice:example'')]
         ''Failed to join room after invite'']"
    by (simp add: always_fails_def invite_event_def)
  moreover have "snd (on_StateMember (recording_join always_fails) example_client () invite_event [])
      = [] @ (if GetStateKey invite_event = UserID example_client
                  \<and> Membership (AsMember (Content invite_event)) = MembershipInvite
               then [RoomID invite_event] else [])"
    using t1 by blast
  with inv have "snd (on_StateMember (recording_join always_fails) example_client () invite_event [])
      = [RoomID invite_event]"
    by simp
  then have "snd (on_StateMember (recording_join always_fails) example_client () invite_event [])
      = [''!R1:example'']"
    by (simp add: invite_event_def)
  moreover have "on_StateMember (recording_join always_fails) example_client () join_event
      [''!R1:example''] = ([], [''!R1:example''])"
    using t2 other by blast
  ultimately show ?thesis by (simp add: prod_eq_iff)
qed

subsection \<open>The sync goroutine\<close>

text \<open>
  C9. The goroutine calls \<open>SyncWithContext\<close> once. When the call returns nil or an
  error whose chain holds \<open>context.Canceled\<close>, nothing is logged. Any other error is
  logged once, as "Sync error". In each case the goroutine then releases the WaitGroup
  and returns: no panic, and no second call.
\<close>

theorem sync_goroutine_logs_only_real_errors:
  assumes "0 < syncWait b"
  shows "sync_goroutine sync b w =
     ((case fst (sync w) of
         None \<Rightarrow> []
       | Some e \<Rightarrow> if errors_Is e context_Canceled then [] else [LogError e [] ''Sync error'']),
      snd (sync w),
      Returns (b\<lparr>syncWait := syncWait b - 1\<rparr>))"
  using assms by (simp add: sync_goroutine_def split_beta split: option.splits)

theorem sync_goroutine_logs_only_real_errors_witness:
  "sync_goroutine (counting_sync (Some (Wrapped ''sync stopped'' context_Canceled)))
      (start_sync (projr (NewBot example_config) :: (unit, nat) Bot)) 0 =
     ([], 1, Returns ((start_sync (projr (NewBot example_config)))\<lparr>syncWait := 0\<rparr>))
   \<and> sync_goroutine (counting_sync (Some (ErrorString ''connection refused'')))
      (start_sync (projr (NewBot example_config) :: (unit, nat) Bot)) 0 =
     ([LogError (ErrorString ''connection refused'') [] ''Sync error''], 1,
      Returns ((start_sync (projr (NewBot example_config)))\<lparr>syncWait := 0\<rparr>))"
proof -
  let ?b = "start_sync (projr (NewBot example_config) :: (unit, nat) Bot)"
  have pos: "0 < syncWait ?b"
    by (simp add: start_sync_def)
  have sw: "syncWait ?b - 1 = 0"
    by (simp add: start_sync_def NewBot_def Validate_def example_config_def)
  note t = sync_goroutine_logs_only_real_errors [OF pos]
  show ?thesis
    using t [of "counting_sync (Some (Wrapped ''sync stopped'' context_Canceled))" 0]
      t [of "counting_sync (Some (ErrorString ''connection refused''))" 0] sw
    by (simp add: counting_sync_def)
qed

subsection \<open>Run\<close>









lemma await_Done_iff:
  "await_Done s sigs \<longleftrightarrow>
     syncCtx_Done s \<or> ParentDone \<in> set sigs \<or> CancelSyncCalled \<in> set sigs"
proof (induction sigs arbitrary: s)
  case Nil
  then show ?case by simp
next
  case (Cons sg sigs)
  then show ?case by (cases sg) (auto simp: syncCtx_Done_def)
qed

text \<open>
  C7, as the code has it. After a successful bootstrap \<open>Run\<close> returns, with nil,
  exactly when the context derived for the sync loop is done: when the caller's
  context is done (before the wait or during it) or when \<open>b.cancelSync\<close> has been
  called, which is what \<open>Stop\<close> does. A done caller's context always makes \<open>Run\<close>
  return; \<open>SyncWithContext\<close> returning in the goroutine, with an error or without,
  never does.
\<close>

theorem Run_returns_when_syncCtx_done:
  assumes "fst (bootstrap env b) = None"
  shows "fst (Run env b ctx_done sigs) =
     (if ctx_done \<or> ParentDone \<in> set sigs \<or> CancelSyncCalled \<in> set sigs
      then Some None else None)"
  using assms
  by (cases "bootstrap env b") (auto simp: Run_def Let_def await_Done_iff syncCtx_Done_def)

lemma bootstrap_working: "fst (bootstrap working_env example_bot) = None"
  by (simp add: bootstrap_def working_env_def new_client_def new_helper_def init_logs_in_def
      Let_def)

theorem Run_returns_when_syncCtx_done_witness:
  "fst (Run working_env example_bot False
          [SyncReturned (Some (ErrorString ''connection refused''))]) = None
   \<and> fst (Run working_env example_bot False
          [SyncReturned (Some (ErrorString ''connection refused'')), ParentDone]) = Some None"
  using Run_returns_when_syncCtx_done [OF bootstrap_working, of False
      "[SyncReturned (Some (ErrorString ''connection refused''))]"]
    Run_returns_when_syncCtx_done [OF bootstrap_working, of False
      "[SyncReturned (Some (ErrorString ''connection refused'')), ParentDone]"]
  by simp

text \<open>
  C7, as the claim states it, fails: a call of \<open>b.cancelSync\<close> makes \<open>Run\<close> return nil
  while the caller's context is not done.
\<close>

theorem Run_returns_on_cancelSync_counterexample:
  "fst (Run working_env example_bot False [CancelSyncCalled]) = Some None
   \<and> ParentDone \<notin> set [CancelSyncCalled]"
  by (simp add: Run_def bootstrap_def working_env_def new_client_def new_helper_def
      init_logs_in_def Let_def syncCtx_Done_def)

subsection \<open>Stop\<close>

text \<open>\<open>Stop\<close> on a bot that holds a cancel function leaves the sync context done.\<close>

lemma Stop_cancels_syncCtx:
  assumes "cancelSync b \<noteq> None" and "Stop close sync_returns b s k = Some (err, calls, b', s', k')"
  shows "syncCtx_Done s' \<and> Call_cancelSync \<in> set calls"
  using assms
  by (auto simp: Stop_def Let_def syncCtx_Done_def split: option.splits if_splits prod.splits)





end
